theory Spec2Isabelle
  imports Main "HOL-Library.Word" "HOL-Library.Sublist"
begin

section \<open>The devvit logs tool (src/tools/logs.ts)\<close>

text \<open>
  The tool validates its arguments against a schema, builds the argument vector of
  \<^verbatim>\<open>devvit logs\<close>, spawns the command, collects what it writes, interrupts it
  after a fixed delay and turns the way the process ends into a result envelope.
  The handler is modelled in two parts: the synchronous prefix (lines 35-69), a
  function of the parsed parameters and of the workspace root, and the promise body
  (lines 64-139), whose callbacks are state transformers run over the list of events
  that the runtime delivers. The call of \<^verbatim>\<open>spawn\<close> is not guarded: when it
  throws, the handler's promise is rejected and no callback ever runs. The calls to the
  logger only write diagnostics and are left out.
\<close>

subsection \<open>Strings\<close>

text \<open>
  A JavaScript string is a sequence of UTF-16 code units: \<^verbatim>\<open>length\<close> counts
  code units and \<^verbatim>\<open>slice\<close> cuts between them.
\<close>

type_synonym jsstring = "16 word list"

definition ascii :: "string \<Rightarrow> jsstring" where
  "ascii s = map (\<lambda>c. of_nat (of_char c)) s"

text \<open>The character U+2026, one code unit.\<close>

definition ellipsis :: "16 word" where
  "ellipsis = 0x2026"

text \<open>\<^verbatim>\<open>str.slice(start)\<close> of ECMAScript, with one argument.\<close>

definition slice :: "jsstring \<Rightarrow> int \<Rightarrow> jsstring" where
  "slice str start =
     (let len = int (length str);
          from = (if start < 0 then max (len + start) 0 else min start len)
      in drop (nat from) str)"

text \<open>Truthiness of an optional string: \<^verbatim>\<open>undefined\<close> and the empty string are falsy.\<close>

definition truthy :: "jsstring option \<Rightarrow> bool" where
  "truthy v = (case v of None \<Rightarrow> False | Some s \<Rightarrow> s \<noteq> [])"

text \<open>\<^verbatim>\<open>a || b\<close> on strings.\<close>

definition or_else :: "jsstring \<Rightarrow> jsstring \<Rightarrow> jsstring" where
  "or_else a b = (if a \<noteq> [] then a else b)"

subsection \<open>Input schema (lines 16-33)\<close>

text \<open>
  The arguments of a call are an object: keys with values, here in the order in which
  they were written. The schema accepts strings and booleans only.
\<close>

datatype jsvalue = JString jsstring | JBoolean bool | JOther

type_synonym rawparams = "(string \<times> jsvalue) list"

record params =
  subreddit :: jsstring
  app :: "jsstring option"
  config :: "jsstring option"
  connect :: bool
  dateformat :: "jsstring option"
  json :: bool
  since :: "jsstring option"
  verbose :: bool

text \<open>\<^verbatim>\<open>z.string()\<close>, \<^verbatim>\<open>z.string().optional()\<close> and
  \<^verbatim>\<open>z.boolean().optional().default(d)\<close>; \<open>None\<close> is a validation failure.\<close>

definition z_string :: "jsvalue option \<Rightarrow> jsstring option" where
  "z_string v = (case v of Some (JString s) \<Rightarrow> Some s | _ \<Rightarrow> None)"

definition z_string_optional :: "jsvalue option \<Rightarrow> jsstring option option" where
  "z_string_optional v =
     (case v of None \<Rightarrow> Some None | Some (JString s) \<Rightarrow> Some (Some s) | _ \<Rightarrow> None)"

definition z_boolean_default :: "bool \<Rightarrow> jsvalue option \<Rightarrow> bool option" where
  "z_boolean_default d v =
     (case v of None \<Rightarrow> Some d | Some (JBoolean b) \<Rightarrow> Some b | _ \<Rightarrow> None)"

definition inputSchema :: "rawparams \<Rightarrow> params option" where
  "inputSchema raw =
     Option.bind (z_string (map_of raw ''subreddit'')) (\<lambda>v_subreddit.
     Option.bind (z_string_optional (map_of raw ''app'')) (\<lambda>v_app.
     Option.bind (z_string_optional (map_of raw ''config'')) (\<lambda>v_config.
     Option.bind (z_boolean_default False (map_of raw ''connect'')) (\<lambda>v_connect.
     Option.bind (z_string_optional (map_of raw ''dateformat'')) (\<lambda>v_dateformat.
     Option.bind (z_boolean_default False (map_of raw ''json'')) (\<lambda>v_json.
     Option.bind (z_string_optional (map_of raw ''since'')) (\<lambda>v_since.
     Option.bind (z_boolean_default True (map_of raw ''verbose'')) (\<lambda>v_verbose.
       Some \<lparr>subreddit = v_subreddit, app = v_app, config = v_config, connect = v_connect,
             dateformat = v_dateformat, json = v_json, since = v_since,
             verbose = v_verbose\<rparr>))))))))"

subsection \<open>Result envelope and spawn request\<close>

datatype content_item = TextContent jsstring

record envelope =
  content :: "content_item list"
  isError :: bool

text \<open>What \<^verbatim>\<open>spawn\<close> is called with; the stdio and environment options are constants.\<close>

record spawn_call =
  command :: jsstring
  args :: "jsstring list"
  cwd :: "jsstring option"

subsection \<open>The synchronous prefix of the handler (lines 35-69)\<close>

text \<open>\<^verbatim>\<open>if (v) args.push(flag, v)\<close> and \<^verbatim>\<open>if (b) args.push(flag)\<close>.\<close>

definition push_string :: "jsstring list \<Rightarrow> jsstring option \<Rightarrow> jsstring list \<Rightarrow> jsstring list" where
  "push_string pre v xs = (case v of None \<Rightarrow> xs | Some s \<Rightarrow> if s \<noteq> [] then xs @ pre @ [s] else xs)"

definition push_bool :: "jsstring \<Rightarrow> bool \<Rightarrow> jsstring list \<Rightarrow> jsstring list" where
  "push_bool flag b xs = (if b then xs @ [flag] else xs)"

definition build_args :: "params \<Rightarrow> jsstring list" where
  "build_args p =
     (let xs = [ascii ''logs'', subreddit p];
          xs = push_string [] (app p) xs;
          xs = push_string [ascii ''--config''] (config p) xs;
          xs = push_bool (ascii ''--connect'') (connect p) xs;
          xs = push_string [ascii ''--dateformat''] (dateformat p) xs;
          xs = push_bool (ascii ''--json'') (json p) xs;
          xs = push_string [ascii ''--since''] (since p) xs;
          xs = push_bool (ascii ''--verbose'') (verbose p) xs
      in xs)"

definition app_required :: envelope where
  "app_required =
     \<lparr>content = [TextContent (ascii ''App name is required when running outside of a Devvit workspace'')],
      isError = True\<rparr>"

text \<open>
  \<open>repoRoot\<close> is what \<^verbatim>\<open>resolveRepoRoot()\<close> returned. \<open>Inl\<close> is the early
  return of line 41, \<open>Inr\<close> the call of \<^verbatim>\<open>spawn\<close> of line 65.
\<close>

definition prepare :: "jsstring option \<Rightarrow> params \<Rightarrow> envelope + spawn_call" where
  "prepare repoRoot p =
     (if \<not> truthy repoRoot \<and> \<not> truthy (app p) then Inl app_required
      else Inr \<lparr>command = ascii ''devvit'', args = build_args p, cwd = repoRoot\<rparr>)"

subsection \<open>The promise body (lines 64-139)\<close>

datatype signal = SIGINT

text \<open>The argument of an \<^verbatim>\<open>error\<close> event: an \<^verbatim>\<open>Error\<close> with its message,
  or another value with its \<^verbatim>\<open>String(...)\<close> rendering.\<close>

datatype jserror = ErrorObject jsstring | OtherValue jsstring

fun error_text :: "jserror \<Rightarrow> jsstring" where
  "error_text (ErrorObject message) = message"
| "error_text (OtherValue rendered) = rendered"

text \<open>
  The events the runtime delivers: a chunk on stdout or stderr (as
  \<^verbatim>\<open>chunk.toString()\<close> renders it), the \<^verbatim>\<open>error\<close> event, the timer
  running out, and \<^verbatim>\<open>close\<close> with the exit code (\<open>None\<close> is \<^verbatim>\<open>null\<close>).
\<close>

datatype event =
  StdoutData jsstring
| StderrData jsstring
| ProcError jserror
| TimerFired
| ProcClose "int option"

text \<open>
  The state the callbacks share: the two buffers, the pending timer with its delay in
  milliseconds, the signals sent to the child, and the value the promise settled with.
\<close>

record pstate =
  stdoutData :: jsstring
  stderrData :: jsstring
  timeout :: "nat option"
  kills :: "signal list"
  settled :: "envelope option"

text \<open>
  \<^verbatim>\<open>spawn\<close> checks its arguments before it starts anything and throws when the
  command, an argument or the working directory holds a NUL code unit.
\<close>

datatype exception = ERR_INVALID_ARG_VALUE

definition has_nul :: "jsstring \<Rightarrow> bool" where
  "has_nul s = (0 \<in> set s)"

definition spawn_throws :: "spawn_call \<Rightarrow> bool" where
  "spawn_throws c =
     (has_nul (command c) \<or> list_ex has_nul (args c) \<or>
      (case cwd c of None \<Rightarrow> False | Some dir \<Rightarrow> has_nul dir))"

text \<open>
  An invocation: the spawn request, if the handler got that far, the envelope the
  handler's promise has been fulfilled with after the events \<open>es\<close>, if it has, and
  the exception it has been rejected with, if it has.
\<close>

record invocation =
  spawn :: "spawn_call option"
  result :: "envelope option"
  thrown :: "exception option"

definition KILL_TIMEOUT_MS :: nat where
  "KILL_TIMEOUT_MS = 2000"

definition MAX_LENGTH :: int where
  "MAX_LENGTH = 2000"

definition truncate :: "jsstring \<Rightarrow> jsstring" where
  "truncate str =
     (if int (length str) > MAX_LENGTH then ellipsis # slice str (- MAX_LENGTH) else str)"

text \<open>\<^verbatim>\<open>resolve\<close> of a promise: the first call settles it, later calls do nothing.\<close>

definition resolve :: "envelope \<Rightarrow> pstate \<Rightarrow> pstate" where
  "resolve env s = (if settled s = None then s\<lparr>settled := Some env\<rparr> else s)"

definition clearTimeout :: "pstate \<Rightarrow> pstate" where
  "clearTimeout s = s\<lparr>timeout := None\<rparr>"

text \<open>The state once \<^verbatim>\<open>spawn\<close> has returned and the listeners and the timer are set.\<close>

definition spawned :: pstate where
  "spawned = \<lparr>stdoutData = [], stderrData = [], timeout = Some KILL_TIMEOUT_MS,
              kills = [], settled = None\<rparr>"

definition on_error :: "jserror \<Rightarrow> pstate \<Rightarrow> pstate" where
  "on_error e s =
     resolve \<lparr>content = [TextContent (ascii ''Failed to execute devvit logs: '' @ error_text e)],
              isError = True\<rparr> s"

definition on_timeout :: "pstate \<Rightarrow> pstate" where
  "on_timeout s = s\<lparr>kills := kills s @ [SIGINT]\<rparr>"

definition on_close :: "int option \<Rightarrow> pstate \<Rightarrow> pstate" where
  "on_close code s =
     (let s = clearTimeout s;
          succeeded = (code = Some 0)
      in if succeeded
         then resolve \<lparr>content = [TextContent (or_else (truncate (stdoutData s))
                                                  (ascii ''No log output returned.''))],
                       isError = False\<rparr> s
         else resolve \<lparr>content = [TextContent (truncate (or_else (stderrData s)
                                                  (or_else (stdoutData s) (ascii ''Unknown error''))))],
                       isError = True\<rparr> s)"

text \<open>One turn of the event loop. A timer that was cleared or has run does not run again.\<close>

fun on_event :: "pstate \<Rightarrow> event \<Rightarrow> pstate" where
  "on_event s (StdoutData chunk) = s\<lparr>stdoutData := stdoutData s @ chunk\<rparr>"
| "on_event s (StderrData chunk) = s\<lparr>stderrData := stderrData s @ chunk\<rparr>"
| "on_event s (ProcError e) = on_error e s"
| "on_event s TimerFired =
     (case timeout s of None \<Rightarrow> s | Some ms \<Rightarrow> on_timeout (s\<lparr>timeout := None\<rparr>))"
| "on_event s (ProcClose code) = on_close code s"

definition run :: "event list \<Rightarrow> pstate \<Rightarrow> pstate" where
  "run es s = foldl on_event s es"

definition handler :: "jsstring option \<Rightarrow> params \<Rightarrow> event list \<Rightarrow> invocation" where
  "handler repoRoot p es =
     (case prepare repoRoot p of
        Inl env \<Rightarrow> \<lparr>spawn = None, result = Some env, thrown = None\<rparr>
      | Inr call \<Rightarrow>
          if spawn_throws call
          then \<lparr>spawn = Some call, result = None, thrown = Some ERR_INVALID_ARG_VALUE\<rparr>
          else \<lparr>spawn = Some call, result = settled (run es spawned), thrown = None\<rparr>)"

text \<open>The tool as the framework calls it: the schema first (\<open>None\<close> when it rejects the
  arguments, and the handler does not run), then the handler.\<close>

definition logsTool :: "jsstring option \<Rightarrow> rawparams \<Rightarrow> event list \<Rightarrow> invocation option" where
  "logsTool repoRoot raw es = map_option (\<lambda>p. handler repoRoot p es) (inputSchema raw)"

subsection \<open>Reading an argument vector back\<close>

text \<open>
  The command line convention \<^verbatim>\<open>logs <subreddit> [app] [flags...]\<close>, as a reader
  of the flags: a boolean flag is one token, a string flag takes the next token as its
  value, and any other token in the place of a flag makes the reading fail.
\<close>

datatype cli_flag = Switch jsstring | Valued jsstring jsstring

fun flag_name :: "cli_flag \<Rightarrow> jsstring" where
  "flag_name (Switch n) = n"
| "flag_name (Valued n v) = n"

definition boolean_flags :: "jsstring list" where
  "boolean_flags = [ascii ''--connect'', ascii ''--json'', ascii ''--verbose'']"

definition string_flags :: "jsstring list" where
  "string_flags = [ascii ''--config'', ascii ''--dateformat'', ascii ''--since'']"

definition flag_order :: "jsstring list" where
  "flag_order = [ascii ''--config'', ascii ''--connect'', ascii ''--dateformat'',
                 ascii ''--json'', ascii ''--since'', ascii ''--verbose'']"

fun read_flags :: "jsstring list \<Rightarrow> cli_flag list option" where
  "read_flags [] = Some []"
| "read_flags (t # ts) =
     (if t \<in> set boolean_flags then map_option (Cons (Switch t)) (read_flags ts)
      else if t \<in> set string_flags then
        (case ts of [] \<Rightarrow> None
         | v # rest \<Rightarrow> map_option (Cons (Valued t v)) (read_flags rest))
      else None)"

text \<open>The tokens a flag is written with.\<close>

fun flag_tokens :: "cli_flag \<Rightarrow> jsstring list" where
  "flag_tokens (Switch n) = [n]"
| "flag_tokens (Valued n v) = [n, v]"

text \<open>The number of tokens before the flags: the subcommand, the subreddit and the app
  name when one was pushed.\<close>

definition positionals :: "params \<Rightarrow> nat" where
  "positionals p = (if truthy (app p) then 3 else 2)"

text \<open>The flags the parameters ask for, in the order of the command line.\<close>

definition switch_if :: "jsstring \<Rightarrow> bool \<Rightarrow> cli_flag list" where
  "switch_if n b = (if b then [Switch n] else [])"

definition valued_if :: "jsstring \<Rightarrow> jsstring option \<Rightarrow> cli_flag list" where
  "valued_if n v = (case v of None \<Rightarrow> [] | Some s \<Rightarrow> if s \<noteq> [] then [Valued n s] else [])"

definition expected_flags :: "params \<Rightarrow> cli_flag list" where
  "expected_flags p =
     valued_if (ascii ''--config'') (config p) @ switch_if (ascii ''--connect'') (connect p) @
     valued_if (ascii ''--dateformat'') (dateformat p) @ switch_if (ascii ''--json'') (json p) @
     valued_if (ascii ''--since'') (since p) @ switch_if (ascii ''--verbose'') (verbose p)"

subsection \<open>Reading an event history\<close>

text \<open>The events whose callbacks call \<^verbatim>\<open>resolve\<close>, the events that carry output,
  and the text a history has written to each stream.\<close>

fun resolving :: "event \<Rightarrow> bool" where
  "resolving (ProcError e) = True"
| "resolving (ProcClose code) = True"
| "resolving other = False"


fun stdout_text :: "event list \<Rightarrow> jsstring" where
  "stdout_text [] = []"
| "stdout_text (StdoutData chunk # es) = chunk @ stdout_text es"
| "stdout_text (other # es) = stdout_text es"

fun stderr_text :: "event list \<Rightarrow> jsstring" where
  "stderr_text [] = []"
| "stderr_text (StderrData chunk # es) = chunk @ stderr_text es"
| "stderr_text (other # es) = stderr_text es"

section \<open>Properties\<close>

subsection \<open>The argument vector and its reading\<close>

lemma push_string_append: "push_string pre v xs = xs @ push_string pre v []"
  by (simp add: push_string_def split: option.splits)

lemma push_bool_append: "push_bool n b xs = xs @ push_bool n b []"
  by (simp add: push_bool_def)

lemma build_args_parts:
  "build_args p = ([ascii ''logs'', subreddit p] @ push_string [] (app p) []) @
     (push_string [ascii ''--config''] (config p) [] @ push_bool (ascii ''--connect'') (connect p) [] @
      push_string [ascii ''--dateformat''] (dateformat p) [] @ push_bool (ascii ''--json'') (json p) [] @
      push_string [ascii ''--since''] (since p) [] @ push_bool (ascii ''--verbose'') (verbose p) [])"
  unfolding build_args_def Let_def
  apply (subst push_bool_append)
  apply (subst push_string_append)
  apply (subst push_bool_append)
  apply (subst push_string_append)
  apply (subst push_bool_append)
  apply (subst push_string_append)
  apply (subst push_string_append)
  apply simp
  done

lemma drop_length_append: "drop (length xs) (xs @ ys) = ys"
  by simp

lemma take_length_append: "take (length xs) (xs @ ys) = xs"
  by simp

lemma length_positionals:
  "length ([ascii ''logs'', subreddit p] @ push_string [] (app p) []) = positionals p"
  by (simp add: positionals_def push_string_def truthy_def split: option.splits)

lemma drop_positionals:
  "drop (positionals p) (build_args p) =
     push_string [ascii ''--config''] (config p) [] @ push_bool (ascii ''--connect'') (connect p) [] @
      push_string [ascii ''--dateformat''] (dateformat p) [] @ push_bool (ascii ''--json'') (json p) [] @
      push_string [ascii ''--since''] (since p) [] @ push_bool (ascii ''--verbose'') (verbose p) []"
  unfolding length_positionals [symmetric]
  by (subst build_args_parts) (rule drop_length_append)

lemma take_positionals:
  "take (positionals p) (build_args p) = [ascii ''logs'', subreddit p] @ push_string [] (app p) []"
  unfolding length_positionals [symmetric]
  by (subst build_args_parts) (rule take_length_append)

lemma positionals_ge: "2 \<le> positionals p"
  by (simp add: positionals_def)

lemma take2_build_args: "take 2 (build_args p) = [ascii ''logs'', subreddit p]"
proof -
  have "take 2 (build_args p) = take 2 (take (positionals p) (build_args p))"
    using positionals_ge [of p] by (simp add: min_def)
  then show ?thesis
    by (simp add: take_positionals)
qed

lemma third_build_args:
  assumes "app p = Some a" and "a \<noteq> []"
  shows "2 < length (build_args p) \<and> build_args p ! 2 = a"
proof -
  from assms have pre: "[ascii ''logs'', subreddit p] @ push_string [] (app p) []
      = [ascii ''logs'', subreddit p, a]"
    by (simp add: push_string_def)
  obtain rest where "build_args p = [ascii ''logs'', subreddit p, a] @ rest"
    using build_args_parts [of p] by (simp only: pre)
  then show ?thesis
    by simp
qed

lemma read_flags_switch:
  "n \<in> set boolean_flags \<Longrightarrow>
     read_flags (push_bool n b [] @ rest) = map_option ((@) (switch_if n b)) (read_flags rest)"
  by (cases "read_flags rest") (simp_all add: push_bool_def switch_if_def)

lemma read_flags_valued:
  "n \<in> set string_flags \<Longrightarrow> n \<notin> set boolean_flags \<Longrightarrow>
     read_flags (push_string [n] v [] @ rest) = map_option ((@) (valued_if n v)) (read_flags rest)"
  by (cases "read_flags rest") (simp_all add: push_string_def valued_if_def split: option.splits)

lemma flag_membership:
  "ascii ''--connect'' \<in> set boolean_flags" "ascii ''--json'' \<in> set boolean_flags"
  "ascii ''--verbose'' \<in> set boolean_flags"
  "ascii ''--config'' \<in> set string_flags" "ascii ''--dateformat'' \<in> set string_flags"
  "ascii ''--since'' \<in> set string_flags"
  "ascii ''--config'' \<notin> set boolean_flags" "ascii ''--dateformat'' \<notin> set boolean_flags"
  "ascii ''--since'' \<notin> set boolean_flags"
  by (simp_all add: boolean_flags_def string_flags_def ascii_def)

lemma read_flags_build_args:
  "read_flags (drop (positionals p) (build_args p)) = Some (expected_flags p)"
proof -
  have "read_flags (push_bool (ascii ''--verbose'') (verbose p) []) =
          Some (switch_if (ascii ''--verbose'') (verbose p))"
    using read_flags_switch [of "ascii ''--verbose''" "verbose p" "[]"]
    by (simp add: flag_membership)
  then show ?thesis
    by (simp add: drop_positionals read_flags_switch read_flags_valued flag_membership
          expected_flags_def del: read_flags.simps)
qed

lemma subseq_parts:
  "subseq a [x] \<Longrightarrow> subseq b ys \<Longrightarrow> subseq (a @ b) (x # ys)"
  using list_emb_append_mono [of "(=)" a "[x]" b ys] by simp

lemma subseq_switch: "subseq (map flag_name (switch_if n b)) [n]"
  by (simp add: switch_if_def)

lemma subseq_valued: "subseq (map flag_name (valued_if n v)) [n]"
  by (simp add: valued_if_def split: option.splits)

lemma expected_flags_order: "subseq (map flag_name (expected_flags p)) flag_order"
  unfolding expected_flags_def flag_order_def map_append
  by (intro subseq_parts subseq_switch subseq_valued)

lemma distinct_flag_order: "distinct flag_order"
  by (simp add: flag_order_def ascii_def)

lemma expected_flags_distinct: "distinct (map flag_name (expected_flags p))"
  using distinct_flag_order expected_flags_order [of p]
  by (auto simp: subseq_conv_nths)

lemma flag_names_differ:
  "ascii ''--connect'' \<noteq> ascii ''--json''" "ascii ''--connect'' \<noteq> ascii ''--verbose''"
  "ascii ''--json'' \<noteq> ascii ''--verbose''" "ascii ''--json'' \<noteq> ascii ''--connect''"
  "ascii ''--verbose'' \<noteq> ascii ''--connect''" "ascii ''--verbose'' \<noteq> ascii ''--json''"
  "ascii ''--config'' \<noteq> ascii ''--dateformat''" "ascii ''--config'' \<noteq> ascii ''--since''"
  "ascii ''--dateformat'' \<noteq> ascii ''--since''" "ascii ''--dateformat'' \<noteq> ascii ''--config''"
  "ascii ''--since'' \<noteq> ascii ''--config''" "ascii ''--since'' \<noteq> ascii ''--dateformat''"
  by (simp_all add: ascii_def)

lemma set_switch_if: "set (switch_if n b) = (if b then {Switch n} else {})"
  by (simp add: switch_if_def)

lemma set_valued_if: "set (valued_if n v) = {f. \<exists>s. v = Some s \<and> s \<noteq> [] \<and> f = Valued n s}"
  by (auto simp: valued_if_def split: option.splits)

lemma switch_in_expected:
  "Switch (ascii ''--connect'') \<in> set (expected_flags p) \<longleftrightarrow> connect p"
  "Switch (ascii ''--json'') \<in> set (expected_flags p) \<longleftrightarrow> json p"
  "Switch (ascii ''--verbose'') \<in> set (expected_flags p) \<longleftrightarrow> verbose p"
  by (simp_all add: expected_flags_def set_switch_if set_valued_if flag_names_differ)

lemma expected_flags_kinds:
  "f \<in> set (expected_flags p) \<Longrightarrow>
     (case f of Switch n \<Rightarrow> n \<in> set boolean_flags
      | Valued n v \<Rightarrow> n \<in> set string_flags \<and> v \<noteq> [])"
  by (auto simp: expected_flags_def set_switch_if set_valued_if flag_membership
        split: if_splits)

lemma schema_fields:
  assumes "inputSchema raw = Some p"
  shows "z_string (map_of raw ''subreddit'') = Some (subreddit p)"
    and "z_string_optional (map_of raw ''app'') = Some (app p)"
    and "z_string_optional (map_of raw ''config'') = Some (config p)"
    and "z_boolean_default False (map_of raw ''connect'') = Some (connect p)"
    and "z_string_optional (map_of raw ''dateformat'') = Some (dateformat p)"
    and "z_boolean_default False (map_of raw ''json'') = Some (json p)"
    and "z_string_optional (map_of raw ''since'') = Some (since p)"
    and "z_boolean_default True (map_of raw ''verbose'') = Some (verbose p)"
  using assms by (auto simp: inputSchema_def split: bind_splits)

lemma z_boolean_default_False:
  "z_boolean_default False v = Some b \<Longrightarrow> b \<longleftrightarrow> v = Some (JBoolean True)"
  by (auto simp: z_boolean_default_def split: option.splits jsvalue.splits)

lemma z_boolean_default_True:
  "z_boolean_default True v = Some b \<Longrightarrow> b \<longleftrightarrow> v \<noteq> Some (JBoolean False)"
  by (auto simp: z_boolean_default_def split: option.splits jsvalue.splits)

lemma inputSchema_order:
  assumes "distinct (map fst raw)" and "distinct (map fst raw')" and "set raw' = set raw"
  shows "inputSchema raw' = inputSchema raw"
proof -
  from assms have "map_of raw' = map_of raw"
    by (simp add: map_of_inject_set)
  then show ?thesis
    by (simp add: inputSchema_def)
qed

lemma prepare_spawns:
  "truthy repoRoot \<or> truthy (app p) \<Longrightarrow>
     prepare repoRoot p = Inr \<lparr>command = ascii ''devvit'', args = build_args p, cwd = repoRoot\<rparr>"
  by (auto simp: prepare_def)

lemma prepare_Inr_args: "prepare repoRoot p = Inr call \<Longrightarrow> args call = build_args p"
  by (auto simp: prepare_def split: if_splits)

lemma handler_spawn: "spawn (handler repoRoot p es) = Some call \<longleftrightarrow> prepare repoRoot p = Inr call"
  by (simp add: handler_def split: sum.splits)

lemma handler_called:
  "prepare repoRoot p = Inr call \<Longrightarrow>
     handler repoRoot p es =
       \<lparr>spawn = Some call,
        result = (if spawn_throws call then None else settled (run es spawned)),
        thrown = (if spawn_throws call then Some ERR_INVALID_ARG_VALUE else None)\<rparr>"
  by (simp add: handler_def)

lemma handler_spawned:
  "prepare repoRoot p = Inr call \<Longrightarrow> \<not> spawn_throws call \<Longrightarrow>
     handler repoRoot p es =
       \<lparr>spawn = Some call, result = settled (run es spawned), thrown = None\<rparr>"
  by (simp add: handler_def)

lemma handler_threw:
  "prepare repoRoot p = Inr call \<Longrightarrow> spawn_throws call \<Longrightarrow>
     handler repoRoot p es =
       \<lparr>spawn = Some call, result = None, thrown = Some ERR_INVALID_ARG_VALUE\<rparr>"
  by (simp add: handler_def)

lemma handler_rejected:
  "prepare repoRoot p = Inl env \<Longrightarrow>
     handler repoRoot p es = \<lparr>spawn = None, result = Some env, thrown = None\<rparr>"
  by (simp add: handler_def)

lemma name_in_expected:
  "ascii ''--config'' \<in> flag_name ` set (expected_flags p) \<longleftrightarrow> truthy (config p)"
  "ascii ''--dateformat'' \<in> flag_name ` set (expected_flags p) \<longleftrightarrow> truthy (dateformat p)"
  "ascii ''--since'' \<in> flag_name ` set (expected_flags p) \<longleftrightarrow> truthy (since p)"
  by (auto simp: expected_flags_def set_switch_if set_valued_if flag_names_differ truthy_def
        flag_membership image_Un image_iff ascii_def split: option.splits)

lemma read_flags_tokens: "read_flags ts = Some fs \<Longrightarrow> concat (map flag_tokens fs) = ts"
  by (induction ts arbitrary: fs rule: read_flags.induct) (auto split: if_splits list.splits)

lemma schema_empty_app:
  "map_of raw ''app'' = None \<Longrightarrow>
     inputSchema ((''app'', JString []) # raw) = map_option (\<lambda>p. p\<lparr>app := Some []\<rparr>) (inputSchema raw)"
  by (auto simp: inputSchema_def z_string_optional_def split: bind_splits)

lemma schema_empty_config:
  "map_of raw ''config'' = None \<Longrightarrow>
     inputSchema ((''config'', JString []) # raw) = map_option (\<lambda>p. p\<lparr>config := Some []\<rparr>) (inputSchema raw)"
  by (auto simp: inputSchema_def z_string_optional_def split: bind_splits)

lemma schema_empty_dateformat:
  "map_of raw ''dateformat'' = None \<Longrightarrow>
     inputSchema ((''dateformat'', JString []) # raw) = map_option (\<lambda>p. p\<lparr>dateformat := Some []\<rparr>) (inputSchema raw)"
  by (auto simp: inputSchema_def z_string_optional_def split: bind_splits)

lemma schema_empty_since:
  "map_of raw ''since'' = None \<Longrightarrow>
     inputSchema ((''since'', JString []) # raw) = map_option (\<lambda>p. p\<lparr>since := Some []\<rparr>) (inputSchema raw)"
  by (auto simp: inputSchema_def z_string_optional_def split: bind_splits)

lemma build_args_empty:
  "build_args (p\<lparr>app := Some []\<rparr>) = build_args (p\<lparr>app := None\<rparr>)"
  "build_args (p\<lparr>config := Some []\<rparr>) = build_args (p\<lparr>config := None\<rparr>)"
  "build_args (p\<lparr>dateformat := Some []\<rparr>) = build_args (p\<lparr>dateformat := None\<rparr>)"
  "build_args (p\<lparr>since := Some []\<rparr>) = build_args (p\<lparr>since := None\<rparr>)"
  by (simp_all add: build_args_def push_string_def)

lemma handler_empty:
  "handler repoRoot (p\<lparr>app := Some []\<rparr>) es = handler repoRoot (p\<lparr>app := None\<rparr>) es"
  "handler repoRoot (p\<lparr>config := Some []\<rparr>) es = handler repoRoot (p\<lparr>config := None\<rparr>) es"
  "handler repoRoot (p\<lparr>dateformat := Some []\<rparr>) es = handler repoRoot (p\<lparr>dateformat := None\<rparr>) es"
  "handler repoRoot (p\<lparr>since := Some []\<rparr>) es = handler repoRoot (p\<lparr>since := None\<rparr>) es"
  by (simp_all add: handler_def prepare_def build_args_empty truthy_def)

lemma absent_fields:
  assumes "inputSchema raw = Some p"
  shows "map_of raw ''app'' = None \<Longrightarrow> p\<lparr>app := None\<rparr> = p"
    and "map_of raw ''config'' = None \<Longrightarrow> p\<lparr>config := None\<rparr> = p"
    and "map_of raw ''dateformat'' = None \<Longrightarrow> p\<lparr>dateformat := None\<rparr> = p"
    and "map_of raw ''since'' = None \<Longrightarrow> p\<lparr>since := None\<rparr> = p"
  using schema_fields [OF assms] by (simp_all add: z_string_optional_def)

lemma logsTool_empty:
  assumes "k \<in> {''app'', ''config'', ''dateformat'', ''since''}" and "map_of raw k = None"
  shows "logsTool repoRoot ((k, JString []) # raw) es = logsTool repoRoot raw es"
proof (cases "inputSchema raw")
  case None
  with assms show ?thesis
    by (auto simp: logsTool_def schema_empty_app schema_empty_config schema_empty_dateformat
          schema_empty_since)
next
  case (Some p)
  with assms show ?thesis
    by (auto simp: logsTool_def schema_empty_app schema_empty_config schema_empty_dateformat
          schema_empty_since handler_empty absent_fields)
qed

subsection \<open>The event loop\<close>

lemma run_Nil: "run [] s = s"
  by (simp add: run_def)

lemma run_Cons: "run (e # es) s = run es (on_event s e)"
  by (simp add: run_def)

lemma run_append: "run (es @ es') s = run es' (run es s)"
  by (simp add: run_def)

lemma settled_on_event_stable:
  "settled s = Some env \<Longrightarrow> settled (on_event s e) = Some env"
  by (cases e)
     (simp_all add: on_error_def on_close_def on_timeout_def resolve_def clearTimeout_def
        Let_def split: option.splits)

lemma settled_run_stable: "settled s = Some env \<Longrightarrow> settled (run es s) = Some env"
  by (induction es arbitrary: s) (simp_all add: run_Nil run_Cons settled_on_event_stable)

lemma settled_on_event_pending:
  "\<not> resolving e \<Longrightarrow> settled (on_event s e) = settled s"
  by (cases e) (simp_all add: on_timeout_def split: option.splits)

lemma settled_run_pending:
  "\<forall>e\<in>set es. \<not> resolving e \<Longrightarrow> settled (run es s) = settled s"
  by (induction es arbitrary: s) (simp_all add: run_Nil run_Cons settled_on_event_pending)

lemma settled_on_event_resolving:
  "resolving e \<Longrightarrow> settled (on_event s e) \<noteq> None"
  by (cases e) (simp_all add: on_error_def on_close_def resolve_def clearTimeout_def Let_def)

lemma stdoutData_on_event:
  "stdoutData (on_event s e) = stdoutData s @ stdout_text [e]"
  by (cases e)
     (simp_all add: on_error_def on_close_def on_timeout_def resolve_def clearTimeout_def
        Let_def split: option.splits)

lemma stdout_text_Cons: "stdout_text (e # es) = stdout_text [e] @ stdout_text es"
  by (cases e) simp_all

lemma stdoutData_run: "stdoutData (run es s) = stdoutData s @ stdout_text es"
proof (induction es arbitrary: s)
  case Nil
  show ?case by (simp add: run_Nil)
next
  case (Cons e es)
  have "stdoutData (run (e # es) s) = (stdoutData s @ stdout_text [e]) @ stdout_text es"
    by (simp only: run_Cons Cons.IH stdoutData_on_event)
  then show ?case
    by (subst stdout_text_Cons) simp
qed

lemma stderrData_on_event:
  "stderrData (on_event s e) = stderrData s @ stderr_text [e]"
  by (cases e)
     (simp_all add: on_error_def on_close_def on_timeout_def resolve_def clearTimeout_def
        Let_def split: option.splits)

lemma stderr_text_Cons: "stderr_text (e # es) = stderr_text [e] @ stderr_text es"
  by (cases e) simp_all

lemma stderrData_run: "stderrData (run es s) = stderrData s @ stderr_text es"
proof (induction es arbitrary: s)
  case Nil
  show ?case by (simp add: run_Nil)
next
  case (Cons e es)
  have "stderrData (run (e # es) s) = (stderrData s @ stderr_text [e]) @ stderr_text es"
    by (simp only: run_Cons Cons.IH stderrData_on_event)
  then show ?case
    by (subst stderr_text_Cons) simp
qed





lemma close_pending:
  "settled s = None \<Longrightarrow>
   settled (on_close code s) =
     Some (if code = Some 0
           then \<lparr>content = [TextContent (or_else (truncate (stdoutData s))
                                           (ascii ''No log output returned.''))],
                 isError = False\<rparr>
           else \<lparr>content = [TextContent (truncate (or_else (stderrData s)
                                           (or_else (stdoutData s) (ascii ''Unknown error''))))],
                 isError = True\<rparr>)"
  by (simp add: on_close_def resolve_def clearTimeout_def Let_def)


lemma error_pending:
  "settled s = None \<Longrightarrow>
   settled (on_error e s) =
     Some \<lparr>content = [TextContent (ascii ''Failed to execute devvit logs: '' @ error_text e)],
           isError = True\<rparr>"
  by (simp add: on_error_def resolve_def)

lemma error_leaves:
  "timeout (on_error e s) = timeout s \<and> kills (on_error e s) = kills s
   \<and> stdoutData (on_error e s) = stdoutData s
   \<and> stderrData (on_error e s) = stderrData s"
  by (simp add: on_error_def resolve_def)

lemma settled_run_resolved:
  "\<exists>e\<in>set es. resolving e \<Longrightarrow> settled (run es s) \<noteq> None"
proof (induction es arbitrary: s)
  case Nil
  then show ?case by simp
next
  case (Cons e es)
  show ?case
  proof (cases "resolving e")
    case True
    then obtain env where "settled (on_event s e) = Some env"
      using settled_on_event_resolving [of e s] by blast
    then show ?thesis
      by (simp add: run_Cons settled_run_stable)
  next
    case False
    with Cons.prems have "\<exists>e\<in>set es. resolving e"
      by simp
    then show ?thesis
      by (simp add: run_Cons Cons.IH)
  qed
qed

lemma spawned_fields:
  "stdoutData spawned = []" "stderrData spawned = []" "timeout spawned = Some 2000"
  "kills spawned = []" "settled spawned = None"
  by (simp_all add: spawned_def KILL_TIMEOUT_MS_def)

lemma pending_before:
  assumes "\<forall>e\<in>set es. \<not> resolving e"
  shows "settled (run es spawned) = None"
    and "stdoutData (run es spawned) = stdout_text es"
    and "stderrData (run es spawned) = stderr_text es"
  using assms by (simp_all add: settled_run_pending stdoutData_run stderrData_run spawned_fields)

lemma first_resolving:
  assumes "\<forall>e\<in>set es. \<not> resolving e" and "settled (on_event (run es spawned) e) = Some env"
  shows "settled (run (es @ e # later) spawned) = Some env"
  using assms(2) by (simp add: run_append run_Cons settled_run_stable)

lemma example_spawns:
  "prepare (Some (ascii ''/w''))
     \<lparr>subreddit = ascii ''s'', app = None, config = None, connect = False,
      dateformat = None, json = False, since = None, verbose = True\<rparr> =
     Inr \<lparr>command = ascii ''devvit'', args = [ascii ''logs'', ascii ''s'', ascii ''--verbose''],
          cwd = Some (ascii ''/w'')\<rparr>"
  by (simp add: prepare_def truthy_def build_args_def push_string_def push_bool_def ascii_def)

lemma example_returns:
  "\<not> spawn_throws \<lparr>command = ascii ''devvit'',
       args = [ascii ''logs'', ascii ''s'', ascii ''--verbose''], cwd = Some (ascii ''/w'')\<rparr>"
  by (simp add: spawn_throws_def has_nul_def ascii_def)

subsection \<open>Truncation\<close>

lemma truncate_short: "length s \<le> 2000 \<Longrightarrow> truncate s = s"
  by (simp add: truncate_def MAX_LENGTH_def)

lemma truncate_long: "2000 < length s \<Longrightarrow> truncate s = ellipsis # drop (length s - 2000) s"
  by (simp add: truncate_def MAX_LENGTH_def slice_def Let_def nat_diff_distrib)

lemma truncate_explicit:
  "truncate s = (if length s \<le> 2000 then s else 0x2026 # drop (length s - 2000) s)"
  by (simp add: truncate_short truncate_long ellipsis_def)

lemma truncate_empty: "truncate s = [] \<longleftrightarrow> s = []"
  by (auto simp: truncate_explicit)

text \<open>
  Claim C4. For every string, \<open>truncate\<close> returns it unchanged when it has at most 2000
  characters (UTF-16 code units, as \<^verbatim>\<open>length\<close> counts them), and otherwise returns
  one ellipsis character followed by its last 2000 characters.
\<close>

theorem truncate_keeps_tail:
  "(length s \<le> 2000 \<longrightarrow> truncate s = s) \<and>
   (2000 < length s \<longrightarrow>
      truncate s = ellipsis # drop (length s - 2000) s \<and>
      length (drop (length s - 2000) s) = 2000 \<and>
      suffix (drop (length s - 2000) s) s)"
  by (simp add: truncate_short truncate_long suffix_drop)

theorem truncate_keeps_tail_witness:
  "length (ascii ''hello'') \<le> 2000 \<and> truncate (ascii ''hello'') = ascii ''hello'' \<and>
   2000 < length (ascii ''head'' @ replicate 2000 (0x78 :: 16 word)) \<and>
   truncate (ascii ''head'' @ replicate 2000 0x78) = ellipsis # replicate 2000 0x78"
  using truncate_keeps_tail [of "ascii ''hello''"]
    truncate_keeps_tail [of "ascii ''head'' @ replicate 2000 0x78"]
  by (simp add: ascii_def)

subsection \<open>The argument vector\<close>

text \<open>
  Claim C1, as the code has it. For every parameter set that the schema accepts
  (\<open>subreddit\<close> set) with a workspace root that resolved to a path or an \<open>app\<close> that
  is not the empty string, the handler spawns; the argument vector begins with the token
  \<^verbatim>\<open>logs\<close> and the subreddit; an \<open>app\<close> that is not the empty string is the third
  element; the tokens after these read as flags whose names are a subsequence of
  \<^verbatim>\<open>--config --connect --dateformat --json --since --verbose\<close>; and the order of
  the keys in the arguments object makes no difference.
\<close>

theorem logs_args_layout:
  assumes "inputSchema raw = Some p" and "truthy repoRoot \<or> truthy (app p)"
  shows "\<exists>call fs.
           logsTool repoRoot raw es =
             Some \<lparr>spawn = Some call,
                   result = (if spawn_throws call then None else settled (run es spawned)),
                   thrown = (if spawn_throws call then Some ERR_INVALID_ARG_VALUE else None)\<rparr> \<and>
           take 2 (args call) = [ascii ''logs'', subreddit p] \<and>
           (\<forall>a. app p = Some a \<and> a \<noteq> [] \<longrightarrow> 2 < length (args call) \<and> args call ! 2 = a) \<and>
           read_flags (drop (positionals p) (args call)) = Some fs \<and>
           subseq (map flag_name fs) flag_order \<and>
           (\<forall>raw'. distinct (map fst raw) \<and> distinct (map fst raw') \<and> set raw' = set raw \<longrightarrow>
              logsTool repoRoot raw' es = logsTool repoRoot raw es)"
proof -
  let ?call = "\<lparr>command = ascii ''devvit'', args = build_args p, cwd = repoRoot\<rparr>"
  from assms(2) have "prepare repoRoot p = Inr ?call"
    by (rule prepare_spawns)
  with assms(1) have tool: "logsTool repoRoot raw es =
      Some \<lparr>spawn = Some ?call,
            result = (if spawn_throws ?call then None else settled (run es spawned)),
            thrown = (if spawn_throws ?call then Some ERR_INVALID_ARG_VALUE else None)\<rparr>"
    by (simp add: logsTool_def handler_called)
  have order: "\<forall>raw'. distinct (map fst raw) \<and> distinct (map fst raw') \<and> set raw' = set raw \<longrightarrow>
      logsTool repoRoot raw' es = logsTool repoRoot raw es"
  proof (intro allI impI)
    fix raw'
    assume "distinct (map fst raw) \<and> distinct (map fst raw') \<and> set raw' = set raw"
    then have "inputSchema raw' = inputSchema raw"
      by (simp add: inputSchema_order)
    then show "logsTool repoRoot raw' es = logsTool repoRoot raw es"
      by (simp add: logsTool_def)
  qed
  have third: "\<forall>a. app p = Some a \<and> a \<noteq> [] \<longrightarrow> 2 < length (args ?call) \<and> args ?call ! 2 = a"
    using third_build_args [of p] by simp
  have "take 2 (args ?call) = [ascii ''logs'', subreddit p]"
    by (simp add: take2_build_args)
  moreover have "read_flags (drop (positionals p) (args ?call)) = Some (expected_flags p)"
    by (simp add: read_flags_build_args)
  moreover note tool third order expected_flags_order [of p]
  ultimately show ?thesis
    by blast
qed

theorem logs_args_layout_witness:
  "inputSchema [(''verbose'', JBoolean False), (''since'', JString (ascii ''15m'')),
                (''json'', JBoolean True), (''app'', JString (ascii ''my-app'')),
                (''subreddit'', JString (ascii ''r/test''))] =
     Some \<lparr>subreddit = ascii ''r/test'', app = Some (ascii ''my-app''), config = None,
           connect = False, dateformat = None, json = True, since = Some (ascii ''15m''),
           verbose = False\<rparr> \<and>
   (\<exists>call fs.
      logsTool None [(''verbose'', JBoolean False), (''since'', JString (ascii ''15m'')),
                (''json'', JBoolean True), (''app'', JString (ascii ''my-app'')),
                (''subreddit'', JString (ascii ''r/test''))] [] =
        Some \<lparr>spawn = Some call, result = None, thrown = None\<rparr> \<and>
      take 2 (args call) = [ascii ''logs'', ascii ''r/test''] \<and>
      args call ! 2 = ascii ''my-app'' \<and>
      read_flags (drop 3 (args call)) = Some fs \<and>
      subseq (map flag_name fs) flag_order \<and>
      logsTool None [(''subreddit'', JString (ascii ''r/test'')),
                (''app'', JString (ascii ''my-app'')), (''json'', JBoolean True),
                (''since'', JString (ascii ''15m'')), (''verbose'', JBoolean False)] [] =
        Some \<lparr>spawn = Some call, result = None, thrown = None\<rparr>)"
proof -
  let ?raw = "[(''verbose'', JBoolean False), (''since'', JString (ascii ''15m'')),
                (''json'', JBoolean True), (''app'', JString (ascii ''my-app'')),
                (''subreddit'', JString (ascii ''r/test''))]"
  let ?raw' = "[(''subreddit'', JString (ascii ''r/test'')),
                (''app'', JString (ascii ''my-app'')), (''json'', JBoolean True),
                (''since'', JString (ascii ''15m'')), (''verbose'', JBoolean False)]"
  let ?p = "\<lparr>subreddit = ascii ''r/test'', app = Some (ascii ''my-app''), config = None,
           connect = False, dateformat = None, json = True, since = Some (ascii ''15m''),
           verbose = False\<rparr>"
  have schema: "inputSchema ?raw = Some ?p"
    by (simp add: inputSchema_def z_string_def z_string_optional_def z_boolean_default_def)
  have go: "truthy None \<or> truthy (app ?p)"
    by (simp add: truthy_def ascii_def)
  have perm: "distinct (map fst ?raw) \<and> distinct (map fst ?raw') \<and> set ?raw' = set ?raw"
    by auto
  have direct: "logsTool None ?raw [] =
      Some \<lparr>spawn = Some \<lparr>command = ascii ''devvit'',
                args = [ascii ''logs'', ascii ''r/test'', ascii ''my-app'', ascii ''--json'',
                        ascii ''--since'', ascii ''15m''],
                cwd = None\<rparr>,
            result = None, thrown = None\<rparr>"
    unfolding logsTool_def schema
    by (simp add: handler_def prepare_def truthy_def build_args_def
          push_string_def push_bool_def spawn_throws_def has_nul_def run_Nil spawned_def ascii_def)
  from logs_args_layout [OF schema go, of "[]"] obtain call fs where
    tool: "logsTool None ?raw [] =
      Some \<lparr>spawn = Some call,
            result = (if spawn_throws call then None else settled (run [] spawned)),
            thrown = (if spawn_throws call then Some ERR_INVALID_ARG_VALUE else None)\<rparr>"
    and two: "take 2 (args call) = [ascii ''logs'', subreddit ?p]"
    and third: "\<forall>a. app ?p = Some a \<and> a \<noteq> [] \<longrightarrow> 2 < length (args call) \<and> args call ! 2 = a"
    and flags: "read_flags (drop (positionals ?p) (args call)) = Some fs"
    and order: "subseq (map flag_name fs) flag_order"
    and any: "\<forall>raw'. distinct (map fst ?raw) \<and> distinct (map fst raw') \<and> set raw' = set ?raw \<longrightarrow>
              logsTool None raw' [] = logsTool None ?raw []"
    by blast
  from tool direct have whole: "logsTool None ?raw [] =
      Some \<lparr>spawn = Some call, result = None, thrown = None\<rparr>"
    by simp
  have pos: "positionals ?p = 3"
    by (simp add: positionals_def truthy_def ascii_def)
  have "args call ! 2 = ascii ''my-app''"
    using third by (simp add: ascii_def)
  moreover have "logsTool None ?raw' [] = logsTool None ?raw []"
    using any perm by blast
  ultimately show ?thesis
    using schema whole two flags order pos
    by (intro conjI exI [of _ call] exI [of _ fs]) simp_all
qed

text \<open>
  Claim C1 as written speaks of every \<open>app\<close> that is set. An \<open>app\<close> set to the empty
  string is not pushed: inside a workspace the third element is then the first flag,
  and outside a workspace the handler returns the rejection and builds no command.
\<close>

theorem logs_args_empty_app_counterexample:
  "logsTool (Some (ascii ''/w'')) [(''subreddit'', JString (ascii ''s'')), (''app'', JString [])] [] =
     Some \<lparr>spawn = Some \<lparr>command = ascii ''devvit'',
                          args = [ascii ''logs'', ascii ''s'', ascii ''--verbose''],
                          cwd = Some (ascii ''/w'')\<rparr>,
           result = None, thrown = None\<rparr> \<and>
   [ascii ''logs'', ascii ''s'', ascii ''--verbose''] ! 2 \<noteq> ([] :: jsstring) \<and>
   logsTool None [(''subreddit'', JString (ascii ''s'')), (''app'', JString [])] [] =
     Some \<lparr>spawn = None, result = Some app_required, thrown = None\<rparr>"
  by (simp add: logsTool_def inputSchema_def z_string_def z_string_optional_def
        z_boolean_default_def handler_def prepare_def truthy_def build_args_def push_string_def
        push_bool_def spawn_throws_def has_nul_def run_Nil spawned_def ascii_def)

subsection \<open>The rejection outside a workspace\<close>

text \<open>
  Claim C3. When no workspace root is resolved and the arguments carry no \<open>app\<close>, the
  handler returns the envelope with \<open>isError\<close> true whose single text item says that an
  app name is required outside a workspace, whatever events follow, and spawns nothing.
\<close>

theorem app_required_outside_workspace:
  assumes "inputSchema raw = Some p" and "map_of raw ''app'' = None"
  shows "logsTool None raw es =
           Some \<lparr>spawn = None,
                 result = Some \<lparr>content = [TextContent (ascii
                     ''App name is required when running outside of a Devvit workspace'')],
                   isError = True\<rparr>,
                 thrown = None\<rparr>"
proof -
  from assms have "app p = None"
    using schema_fields(2) [of raw p] by (simp add: z_string_optional_def)
  then have "prepare None p = Inl app_required"
    by (simp add: prepare_def truthy_def)
  then show ?thesis
    using assms(1) by (simp add: logsTool_def handler_rejected app_required_def)
qed

lemma schema_example:
  "inputSchema [(''subreddit'', JString (ascii ''mySubreddit''))] =
     Some \<lparr>subreddit = ascii ''mySubreddit'', app = None, config = None, connect = False,
           dateformat = None, json = False, since = None, verbose = True\<rparr>"
  by (simp add: inputSchema_def z_string_def z_string_optional_def z_boolean_default_def)

theorem app_required_outside_workspace_witness:
  "inputSchema [(''subreddit'', JString (ascii ''mySubreddit''))] =
     Some \<lparr>subreddit = ascii ''mySubreddit'', app = None, config = None, connect = False,
           dateformat = None, json = False, since = None, verbose = True\<rparr> \<and>
   map_of [(''subreddit'', JString (ascii ''mySubreddit''))] ''app'' = None \<and>
   logsTool None [(''subreddit'', JString (ascii ''mySubreddit''))] [] =
     Some \<lparr>spawn = None,
           result = Some \<lparr>content = [TextContent (ascii
               ''App name is required when running outside of a Devvit workspace'')],
             isError = True\<rparr>,
           thrown = None\<rparr>"
  using app_required_outside_workspace [OF schema_example, of "[]"] schema_example
  by simp

subsection \<open>Flags and their values\<close>

text \<open>
  Claim C2. In every argument vector the handler spawns with, the tokens after the
  positional arguments are a sequence of flags, each written as a boolean flag alone or as
  a string flag followed by exactly one value. \<^verbatim>\<open>--connect\<close> and \<^verbatim>\<open>--json\<close> are
  there exactly when the parameter was given as true (absent or false emits nothing),
  \<^verbatim>\<open>--verbose\<close> exactly when the parameter was not given as false (it defaults to
  true); a boolean flag never has a value, a string flag always has one, and no flag
  is repeated.
\<close>

theorem flags_with_and_without_values:
  assumes "inputSchema raw = Some p" and "spawn (handler repoRoot p es) = Some call"
  shows "\<exists>fs. read_flags (drop (positionals p) (args call)) = Some fs \<and>
           concat (map flag_tokens fs) = drop (positionals p) (args call) \<and>
           (Switch (ascii ''--connect'') \<in> set fs \<longleftrightarrow> map_of raw ''connect'' = Some (JBoolean True)) \<and>
           (Switch (ascii ''--json'') \<in> set fs \<longleftrightarrow> map_of raw ''json'' = Some (JBoolean True)) \<and>
           (Switch (ascii ''--verbose'') \<in> set fs \<longleftrightarrow> map_of raw ''verbose'' \<noteq> Some (JBoolean False)) \<and>
           (\<forall>f\<in>set fs. case f of Switch n \<Rightarrow> n \<in> set boolean_flags
                         | Valued n v \<Rightarrow> n \<in> set string_flags \<and> v \<noteq> []) \<and>
           distinct (map flag_name fs)"
proof -
  from assms(2) have "args call = build_args p"
    by (simp add: handler_spawn prepare_Inr_args)
  then have "read_flags (drop (positionals p) (args call)) = Some (expected_flags p)"
    by (simp add: read_flags_build_args)
  moreover from this have "concat (map flag_tokens (expected_flags p)) = drop (positionals p) (args call)"
    by (rule read_flags_tokens)
  moreover have "Switch (ascii ''--connect'') \<in> set (expected_flags p)
      \<longleftrightarrow> map_of raw ''connect'' = Some (JBoolean True)"
    using z_boolean_default_False [OF schema_fields(4) [OF assms(1)]]
    by (simp add: switch_in_expected)
  moreover have "Switch (ascii ''--json'') \<in> set (expected_flags p)
      \<longleftrightarrow> map_of raw ''json'' = Some (JBoolean True)"
    using z_boolean_default_False [OF schema_fields(6) [OF assms(1)]]
    by (simp add: switch_in_expected)
  moreover have "Switch (ascii ''--verbose'') \<in> set (expected_flags p)
      \<longleftrightarrow> map_of raw ''verbose'' \<noteq> Some (JBoolean False)"
    using z_boolean_default_True [OF schema_fields(8) [OF assms(1)]]
    by (simp add: switch_in_expected)
  moreover have "\<forall>f\<in>set (expected_flags p). case f of Switch n \<Rightarrow> n \<in> set boolean_flags
                         | Valued n v \<Rightarrow> n \<in> set string_flags \<and> v \<noteq> []"
    using expected_flags_kinds [of _ p] by blast
  moreover note expected_flags_distinct [of p]
  ultimately show ?thesis
    by blast
qed

lemma flags_example_schema:
  "inputSchema [(''subreddit'', JString (ascii ''r/test'')), (''json'', JBoolean True),
                (''connect'', JBoolean False), (''since'', JString (ascii ''15m''))] =
     Some \<lparr>subreddit = ascii ''r/test'', app = None, config = None, connect = False,
           dateformat = None, json = True, since = Some (ascii ''15m''), verbose = True\<rparr>"
  by (simp add: inputSchema_def z_string_def z_string_optional_def z_boolean_default_def)

lemma flags_example_spawn:
  "spawn (handler (Some (ascii ''/w''))
       \<lparr>subreddit = ascii ''r/test'', app = None, config = None, connect = False,
        dateformat = None, json = True, since = Some (ascii ''15m''), verbose = True\<rparr> []) =
     Some \<lparr>command = ascii ''devvit'',
           args = [ascii ''logs'', ascii ''r/test'', ascii ''--json'', ascii ''--since'',
                   ascii ''15m'', ascii ''--verbose''],
           cwd = Some (ascii ''/w'')\<rparr>"
  by (simp add: handler_spawn prepare_def truthy_def build_args_def push_string_def
        push_bool_def ascii_def)

theorem flags_with_and_without_values_witness:
  "\<exists>fs. read_flags [ascii ''--json'', ascii ''--since'', ascii ''15m'', ascii ''--verbose''] = Some fs \<and>
      concat (map flag_tokens fs) =
        [ascii ''--json'', ascii ''--since'', ascii ''15m'', ascii ''--verbose''] \<and>
      Switch (ascii ''--connect'') \<notin> set fs \<and> Switch (ascii ''--json'') \<in> set fs \<and>
      Switch (ascii ''--verbose'') \<in> set fs \<and> distinct (map flag_name fs)"
proof -
  let ?raw = "[(''subreddit'', JString (ascii ''r/test'')), (''json'', JBoolean True),
                (''connect'', JBoolean False), (''since'', JString (ascii ''15m''))]"
  let ?p = "\<lparr>subreddit = ascii ''r/test'', app = None, config = None, connect = False,
           dateformat = None, json = True, since = Some (ascii ''15m''), verbose = True\<rparr>"
  let ?call = "\<lparr>command = ascii ''devvit'',
           args = [ascii ''logs'', ascii ''r/test'', ascii ''--json'', ascii ''--since'',
                   ascii ''15m'', ascii ''--verbose''],
           cwd = Some (ascii ''/w'')\<rparr>"
  have tokens: "drop (positionals ?p) (args ?call) =
      [ascii ''--json'', ascii ''--since'', ascii ''15m'', ascii ''--verbose'']"
    by (simp add: positionals_def truthy_def)
  have given: "map_of ?raw ''connect'' \<noteq> Some (JBoolean True)"
    "map_of ?raw ''json'' = Some (JBoolean True)"
    "map_of ?raw ''verbose'' \<noteq> Some (JBoolean False)"
    by simp_all
  from flags_with_and_without_values [OF flags_example_schema flags_example_spawn]
  obtain fs where "read_flags (drop (positionals ?p) (args ?call)) = Some fs"
    and "concat (map flag_tokens fs) = drop (positionals ?p) (args ?call)"
    and "Switch (ascii ''--connect'') \<in> set fs \<longleftrightarrow> map_of ?raw ''connect'' = Some (JBoolean True)"
    and "Switch (ascii ''--json'') \<in> set fs \<longleftrightarrow> map_of ?raw ''json'' = Some (JBoolean True)"
    and "Switch (ascii ''--verbose'') \<in> set fs \<longleftrightarrow> map_of ?raw ''verbose'' \<noteq> Some (JBoolean False)"
    and "distinct (map flag_name fs)"
    by blast
  with given show ?thesis
    unfolding tokens by (intro exI [of _ fs]) (simp only: simp_thms)
qed

subsection \<open>Empty strings\<close>

text \<open>
  Claim C10. An optional string parameter given as the empty string is treated as if it
  were absent: the tool does the same with and without it; an empty \<open>app\<close> appends no
  positional argument (all tokens after the subreddit read as flags) and, with no
  workspace root, the handler returns the app-name-required rejection; an empty
  \<open>config\<close>, \<open>dateformat\<close> or \<open>since\<close> emits no flag of that name.
\<close>

theorem empty_string_as_absent:
  assumes "k \<in> {''app'', ''config'', ''dateformat'', ''since''}" and "map_of raw k = None"
  shows "logsTool repoRoot ((k, JString []) # raw) es = logsTool repoRoot raw es \<and>
         build_args (p\<lparr>app := Some []\<rparr>) = build_args (p\<lparr>app := None\<rparr>) \<and>
         (\<exists>fs. read_flags (drop 2 (build_args (p\<lparr>app := Some []\<rparr>))) = Some fs) \<and>
         handler None (p\<lparr>app := Some []\<rparr>) es =
           \<lparr>spawn = None, result = Some app_required, thrown = None\<rparr> \<and>
         (\<exists>fs. read_flags (drop (positionals p) (build_args (p\<lparr>config := Some []\<rparr>))) = Some fs \<and>
               ascii ''--config'' \<notin> flag_name ` set fs) \<and>
         (\<exists>fs. read_flags (drop (positionals p) (build_args (p\<lparr>dateformat := Some []\<rparr>))) = Some fs \<and>
               ascii ''--dateformat'' \<notin> flag_name ` set fs) \<and>
         (\<exists>fs. read_flags (drop (positionals p) (build_args (p\<lparr>since := Some []\<rparr>))) = Some fs \<and>
               ascii ''--since'' \<notin> flag_name ` set fs)"
proof -
  have "positionals (p\<lparr>config := Some []\<rparr>) = positionals p"
    "positionals (p\<lparr>dateformat := Some []\<rparr>) = positionals p"
    "positionals (p\<lparr>since := Some []\<rparr>) = positionals p"
    by (simp_all add: positionals_def)
  then have flags:
    "read_flags (drop (positionals p) (build_args (p\<lparr>config := Some []\<rparr>))) =
       Some (expected_flags (p\<lparr>config := Some []\<rparr>))"
    "read_flags (drop (positionals p) (build_args (p\<lparr>dateformat := Some []\<rparr>))) =
       Some (expected_flags (p\<lparr>dateformat := Some []\<rparr>))"
    "read_flags (drop (positionals p) (build_args (p\<lparr>since := Some []\<rparr>))) =
       Some (expected_flags (p\<lparr>since := Some []\<rparr>))"
    using read_flags_build_args [of "p\<lparr>config := Some []\<rparr>"]
      read_flags_build_args [of "p\<lparr>dateformat := Some []\<rparr>"]
      read_flags_build_args [of "p\<lparr>since := Some []\<rparr>"]
    by simp_all
  have none:
    "ascii ''--config'' \<notin> flag_name ` set (expected_flags (p\<lparr>config := Some []\<rparr>))"
    "ascii ''--dateformat'' \<notin> flag_name ` set (expected_flags (p\<lparr>dateformat := Some []\<rparr>))"
    "ascii ''--since'' \<notin> flag_name ` set (expected_flags (p\<lparr>since := Some []\<rparr>))"
    by (simp_all add: name_in_expected truthy_def)
  have "handler None (p\<lparr>app := Some []\<rparr>) es =
      \<lparr>spawn = None, result = Some app_required, thrown = None\<rparr>"
    by (simp add: handler_def prepare_def truthy_def)
  moreover have "read_flags (drop 2 (build_args (p\<lparr>app := Some []\<rparr>))) =
      Some (expected_flags (p\<lparr>app := Some []\<rparr>))"
    using read_flags_build_args [of "p\<lparr>app := Some []\<rparr>"]
    by (simp add: positionals_def truthy_def)
  moreover note logsTool_empty [OF assms] build_args_empty(1) [of p] flags none
  ultimately show ?thesis
    by simp
qed

theorem empty_string_as_absent_witness:
  "''app'' \<in> {''app'', ''config'', ''dateformat'', ''since''} \<and>
   map_of [(''subreddit'', JString (ascii ''s''))] ''app'' = None \<and>
   logsTool None [(''app'', JString []), (''subreddit'', JString (ascii ''s''))] [] =
     Some \<lparr>spawn = None, result = Some app_required, thrown = None\<rparr> \<and>
   logsTool None [(''subreddit'', JString (ascii ''s''))] [] =
     Some \<lparr>spawn = None, result = Some app_required, thrown = None\<rparr>"
proof -
  have key: "''app'' \<in> {''app'', ''config'', ''dateformat'', ''since''}"
    and absent: "map_of [(''subreddit'', JString (ascii ''s''))] ''app'' = None"
    by simp_all
  have "logsTool None [(''subreddit'', JString (ascii ''s''))] [] =
      Some \<lparr>spawn = None, result = Some app_required, thrown = None\<rparr>"
    by (simp add: logsTool_def inputSchema_def z_string_def z_string_optional_def
          z_boolean_default_def handler_def prepare_def truthy_def)
  with empty_string_as_absent [OF key absent, of None "[]"] key absent show ?thesis
    by simp
qed

subsection \<open>The envelope of a closed process\<close>

text \<open>
  Claim C5, as the code has it. When the child process closes with exit code 0 and no
  \<^verbatim>\<open>error\<close> event has settled the promise before, the result envelope has
  \<open>isError\<close> false and its single text item is the text accumulated from stdout, cut to
  the character U+2026 and its last 2000 characters when it is longer than 2000, or the
  text \<^verbatim>\<open>No log output returned.\<close> when it is empty; whatever events come later do
  not change it.
\<close>

theorem success_envelope:
  assumes "prepare repoRoot p = Inr call" and "\<not> spawn_throws call"
    and "\<forall>e\<in>set es. \<not> resolving e"
  shows "handler repoRoot p (es @ ProcClose (Some 0) # later) =
           \<lparr>spawn = Some call,
            result = Some \<lparr>content = [TextContent
                (if stdout_text es = [] then ascii ''No log output returned.''
                 else if length (stdout_text es) \<le> 2000 then stdout_text es
                 else 0x2026 # drop (length (stdout_text es) - 2000) (stdout_text es))],
              isError = False\<rparr>,
            thrown = None\<rparr>"
proof -
  have "or_else (truncate (stdout_text es)) (ascii ''No log output returned.'') =
      (if stdout_text es = [] then ascii ''No log output returned.''
       else if length (stdout_text es) \<le> 2000 then stdout_text es
       else 0x2026 # drop (length (stdout_text es) - 2000) (stdout_text es))"
    by (simp add: or_else_def truncate_empty) (simp add: truncate_explicit)
  then have "settled (on_event (run es spawned) (ProcClose (Some 0))) =
      Some \<lparr>content = [TextContent
                (if stdout_text es = [] then ascii ''No log output returned.''
                 else if length (stdout_text es) \<le> 2000 then stdout_text es
                 else 0x2026 # drop (length (stdout_text es) - 2000) (stdout_text es))],
              isError = False\<rparr>"
    using pending_before [OF assms(3)] by (simp add: close_pending)
  then show ?thesis
    using assms by (simp add: handler_spawned first_resolving)
qed

theorem success_envelope_witness:
  "result (handler (Some (ascii ''/w'')) 
     \<lparr>subreddit = ascii ''s'', app = None, config = None, connect = False,
      dateformat = None, json = False, since = None, verbose = True\<rparr>
     ([StdoutData (ascii ''hel''), TimerFired, StdoutData (ascii ''lo'')] @ ProcClose (Some 0) # [])) =
     Some \<lparr>content = [TextContent (ascii ''hello'')], isError = False\<rparr> \<and>
   result (handler (Some (ascii ''/w'')) 
     \<lparr>subreddit = ascii ''s'', app = None, config = None, connect = False,
      dateformat = None, json = False, since = None, verbose = True\<rparr>
     ([StdoutData (ascii ''ab''), StdoutData (replicate 2000 0x63)] @ ProcClose (Some 0) # [])) =
     Some \<lparr>content = [TextContent (0x2026 # replicate 2000 0x63)], isError = False\<rparr> \<and>
   result (handler (Some (ascii ''/w'')) 
     \<lparr>subreddit = ascii ''s'', app = None, config = None, connect = False,
      dateformat = None, json = False, since = None, verbose = True\<rparr>
     ([TimerFired] @ ProcClose (Some 0) # [])) =
     Some \<lparr>content = [TextContent (ascii ''No log output returned.'')], isError = False\<rparr>"
proof -
  let ?es = "[StdoutData (ascii ''hel''), TimerFired, StdoutData (ascii ''lo'')]"
  let ?long = "[StdoutData (ascii ''ab''), StdoutData (replicate 2000 0x63)]"
  have quiet: "\<forall>e\<in>set ?es. \<not> resolving e" "\<forall>e\<in>set ?long. \<not> resolving e"
    "\<forall>e\<in>set [TimerFired]. \<not> resolving e"
    by simp_all
  have out: "stdout_text ?es = ascii ''hello''" "stdout_text ?long = ascii ''ab'' @ replicate 2000 0x63"
    "stdout_text [TimerFired] = []"
    by (simp_all add: ascii_def)
  have sizes: "length (ascii ''hello'') = 5" "ascii ''hello'' \<noteq> []" "length (ascii ''ab'') = 2"
    by (simp_all add: ascii_def)
  show ?thesis
    using success_envelope [OF example_spawns example_returns quiet(1), of "[]"]
      success_envelope [OF example_spawns example_returns quiet(2), of "[]"]
      success_envelope [OF example_spawns example_returns quiet(3), of "[]"]
    by (simp only: out) (simp add: sizes)
qed

text \<open>
  Claim C5 as written speaks of every invocation whose child closes with exit code 0.
  When the interrupt at the timeout cannot be delivered the runtime emits \<^verbatim>\<open>error\<close>,
  whose callback settles the promise; the close with code 0 that follows calls
  \<^verbatim>\<open>resolve\<close> a second time, without effect, and the envelope has \<open>isError\<close> true.
\<close>

theorem success_envelope_error_first_counterexample:
  "result (handler (Some (ascii ''/w'')) 
     \<lparr>subreddit = ascii ''s'', app = None, config = None, connect = False,
      dateformat = None, json = False, since = None, verbose = True\<rparr>
     [TimerFired, ProcError (ErrorObject (ascii ''kill EPERM'')), ProcClose (Some 0)]) =
     Some \<lparr>content = [TextContent (ascii ''Failed to execute devvit logs: kill EPERM'')],
           isError = True\<rparr>"
  using handler_spawned [OF example_spawns example_returns,
      of "[TimerFired, ProcError (ErrorObject (ascii ''kill EPERM'')), ProcClose (Some 0)]"]
  by (simp add: run_def on_error_def on_close_def on_timeout_def resolve_def clearTimeout_def
        spawned_def Let_def ascii_def)

text \<open>
  Claim C6, as the code has it. When the child process closes with any other exit code,
  \<^verbatim>\<open>null\<close> included, and no \<^verbatim>\<open>error\<close> event has settled the promise before, the
  result envelope has \<open>isError\<close> true and its single text item is the stderr text if it
  is not empty, else the stdout text if it is not empty, else \<^verbatim>\<open>Unknown error\<close>, cut to
  the character U+2026 and its last 2000 characters when it is longer than 2000.
\<close>

theorem failure_envelope:
  assumes "prepare repoRoot p = Inr call" and "\<not> spawn_throws call"
    and "\<forall>e\<in>set es. \<not> resolving e" and "code \<noteq> Some 0"
  shows "handler repoRoot p (es @ ProcClose code # later) =
           \<lparr>spawn = Some call,
            result = Some \<lparr>content = [TextContent
                (let shown = (if stderr_text es \<noteq> [] then stderr_text es
                              else if stdout_text es \<noteq> [] then stdout_text es
                              else ascii ''Unknown error'')
                 in if length shown \<le> 2000 then shown
                    else 0x2026 # drop (length shown - 2000) shown)],
              isError = True\<rparr>,
            thrown = None\<rparr>"
proof -
  have "settled (on_event (run es spawned) (ProcClose code)) =
      Some \<lparr>content = [TextContent
                (let shown = (if stderr_text es \<noteq> [] then stderr_text es
                              else if stdout_text es \<noteq> [] then stdout_text es
                              else ascii ''Unknown error'')
                 in if length shown \<le> 2000 then shown
                    else 0x2026 # drop (length shown - 2000) shown)],
              isError = True\<rparr>"
    using pending_before [OF assms(3)] assms(4)
    by (simp add: close_pending or_else_def truncate_explicit Let_def)
  then show ?thesis
    using assms by (simp add: handler_spawned first_resolving)
qed

theorem failure_envelope_witness:
  "result (handler (Some (ascii ''/w'')) 
     \<lparr>subreddit = ascii ''s'', app = None, config = None, connect = False,
      dateformat = None, json = False, since = None, verbose = True\<rparr>
     ([StdoutData (ascii ''out''), StderrData (ascii ''boom''), TimerFired] @ ProcClose None # [])) =
     Some \<lparr>content = [TextContent (ascii ''boom'')], isError = True\<rparr> \<and>
   result (handler (Some (ascii ''/w'')) 
     \<lparr>subreddit = ascii ''s'', app = None, config = None, connect = False,
      dateformat = None, json = False, since = None, verbose = True\<rparr>
     ([StderrData (ascii ''ab''), StderrData (replicate 2000 0x63)] @ ProcClose (Some 1) # [])) =
     Some \<lparr>content = [TextContent (0x2026 # replicate 2000 0x63)], isError = True\<rparr> \<and>
   result (handler (Some (ascii ''/w'')) 
     \<lparr>subreddit = ascii ''s'', app = None, config = None, connect = False,
      dateformat = None, json = False, since = None, verbose = True\<rparr>
     ([StdoutData (ascii ''out'')] @ ProcClose (Some 1) # [])) =
     Some \<lparr>content = [TextContent (ascii ''out'')], isError = True\<rparr> \<and>
   result (handler (Some (ascii ''/w'')) 
     \<lparr>subreddit = ascii ''s'', app = None, config = None, connect = False,
      dateformat = None, json = False, since = None, verbose = True\<rparr> ([] @ ProcClose (Some 1) # [])) =
     Some \<lparr>content = [TextContent (ascii ''Unknown error'')], isError = True\<rparr>"
proof -
  let ?es = "[StdoutData (ascii ''out''), StderrData (ascii ''boom''), TimerFired]"
  let ?long = "[StderrData (ascii ''ab''), StderrData (replicate 2000 0x63)]"
  have quiet: "\<forall>e\<in>set ?es. \<not> resolving e" "\<forall>e\<in>set ?long. \<not> resolving e"
    "\<forall>e\<in>set [StdoutData (ascii ''out'')]. \<not> resolving e"
    "\<forall>e\<in>set ([] :: event list). \<not> resolving e"
    by simp_all
  have codes: "(None :: int option) \<noteq> Some 0" "Some (1 :: int) \<noteq> Some 0"
    by simp_all
  have out: "stderr_text ?es = ascii ''boom''" "stderr_text ?long = ascii ''ab'' @ replicate 2000 0x63"
    "stderr_text [StdoutData (ascii ''out'')] = []" "stdout_text [StdoutData (ascii ''out'')] = ascii ''out''"
    "stderr_text [] = []" "stdout_text [] = []"
    by (simp_all add: ascii_def)
  have sizes: "length (ascii ''boom'') = 4" "ascii ''boom'' \<noteq> []" "length (ascii ''ab'') = 2"
    "length (ascii ''out'') = 3" "ascii ''out'' \<noteq> []" "length (ascii ''Unknown error'') = 13"
    by (simp_all add: ascii_def)
  show ?thesis
    using failure_envelope [OF example_spawns example_returns quiet(1) codes(1), of "[]"]
      failure_envelope [OF example_spawns example_returns quiet(2) codes(2), of "[]"]
      failure_envelope [OF example_spawns example_returns quiet(3) codes(2), of "[]"]
      failure_envelope [OF example_spawns example_returns quiet(4) codes(2), of "[]"]
    by (simp only: out) (simp add: sizes Let_def)
qed

text \<open>
  Claim C6 as written speaks of every invocation whose child closes with another exit
  code. When the command cannot be started the runtime emits \<^verbatim>\<open>error\<close> and then
  \<^verbatim>\<open>close\<close> with a negative code: the promise is settled by the error callback, and
  the text is the failure's message, not \<^verbatim>\<open>Unknown error\<close>, with both buffers empty.
\<close>

theorem failure_envelope_error_first_counterexample:
  "result (handler (Some (ascii ''/w'')) 
     \<lparr>subreddit = ascii ''s'', app = None, config = None, connect = False,
      dateformat = None, json = False, since = None, verbose = True\<rparr>
     [ProcError (ErrorObject (ascii ''spawn devvit ENOENT'')), ProcClose (Some (- 2))]) =
     Some \<lparr>content = [TextContent (ascii ''Failed to execute devvit logs: spawn devvit ENOENT'')],
           isError = True\<rparr> \<and>
   stderr_text [ProcError (ErrorObject (ascii ''spawn devvit ENOENT'')), ProcClose (Some (- 2))] = [] \<and>
   stdout_text [ProcError (ErrorObject (ascii ''spawn devvit ENOENT'')), ProcClose (Some (- 2))] = [] \<and>
   ascii ''Failed to execute devvit logs: spawn devvit ENOENT'' \<noteq> truncate (ascii ''Unknown error'')"
  using handler_spawned [OF example_spawns example_returns,
      of "[ProcError (ErrorObject (ascii ''spawn devvit ENOENT'')), ProcClose (Some (- 2))]"]
  by (simp add: run_def on_error_def on_close_def resolve_def clearTimeout_def
        spawned_def Let_def truncate_explicit ascii_def)

subsection \<open>The timeout\<close>



subsection \<open>Spawn failure\<close>

text \<open>
  Claim C8. When the \<^verbatim>\<open>error\<close> event of the child that \<^verbatim>\<open>spawn\<close> returned
  arrives on a pending promise, as it does when the spawn itself fails, the invocation resolves at once with an \<open>isError\<close> true
  envelope whose text ends with the failure's message, and no timer or close event
  that follows changes it. The error callback itself leaves the timer and the child
  alone.
\<close>

theorem spawn_error_envelope:
  assumes "prepare repoRoot p = Inr call" and "\<not> spawn_throws call"
    and "\<forall>e\<in>set es. \<not> resolving e"
  shows "handler repoRoot p (es @ ProcError err # later) =
           \<lparr>spawn = Some call,
            result = Some \<lparr>content = [TextContent
                (ascii ''Failed to execute devvit logs: '' @ error_text err)],
              isError = True\<rparr>,
            thrown = None\<rparr> \<and>
         timeout (on_event s (ProcError err)) = timeout s \<and>
         kills (on_event s (ProcError err)) = kills s"
proof -
  have "settled (on_event (run es spawned) (ProcError err)) =
      Some \<lparr>content = [TextContent (ascii ''Failed to execute devvit logs: '' @ error_text err)],
            isError = True\<rparr>"
    using pending_before(1) [OF assms(3)] by (simp add: error_pending)
  then show ?thesis
    using assms by (simp add: handler_spawned first_resolving error_leaves)
qed

theorem spawn_error_envelope_witness:
  "prepare (Some (ascii ''/w''))
     \<lparr>subreddit = ascii ''s'', app = None, config = None, connect = False,
      dateformat = None, json = False, since = None, verbose = True\<rparr> =
     Inr \<lparr>command = ascii ''devvit'', args = [ascii ''logs'', ascii ''s'', ascii ''--verbose''],
          cwd = Some (ascii ''/w'')\<rparr> \<and>
   list_all (\<lambda>e. \<not> resolving e) ([] :: event list) \<and>
   result (handler (Some (ascii ''/w''))
     \<lparr>subreddit = ascii ''s'', app = None, config = None, connect = False,
      dateformat = None, json = False, since = None, verbose = True\<rparr>
     ([] @ ProcError (ErrorObject (ascii ''spawn devvit ENOENT'')) #
        [ProcClose (Some (- 2)), TimerFired])) =
     Some \<lparr>content = [TextContent (ascii ''Failed to execute devvit logs: spawn devvit ENOENT'')],
           isError = True\<rparr>"
proof -
  let ?p = "\<lparr>subreddit = ascii ''s'', app = None, config = None, connect = False,
      dateformat = None, json = False, since = None, verbose = True\<rparr>"
  let ?call = "\<lparr>command = ascii ''devvit'', args = [ascii ''logs'', ascii ''s'', ascii ''--verbose''],
          cwd = Some (ascii ''/w'')\<rparr>"
  have spawns: "prepare (Some (ascii ''/w'')) ?p = Inr ?call"
    by (simp add: prepare_def truthy_def build_args_def push_string_def push_bool_def ascii_def)
  have quiet: "\<forall>e\<in>set ([] :: event list). \<not> resolving e"
    by simp
  show ?thesis
    using spawn_error_envelope [OF spawns example_returns quiet,
        of "ErrorObject (ascii ''spawn devvit ENOENT'')" "[ProcClose (Some (- 2)), TimerFired]"]
      spawns quiet
    by (simp add: ascii_def)
qed

subsection \<open>One envelope\<close>

text \<open>
  Claim C9, as the code has it. A rejected invocation returns its one envelope and spawns
  nothing. An invocation whose call of \<^verbatim>\<open>spawn\<close> returned a child has no envelope as
  long as neither an \<^verbatim>\<open>error\<close> nor a \<^verbatim>\<open>close\<close> event has arrived, and has one
  from the first such event on: the envelope of that event's callback. Once there is an
  envelope, no later event (a timer running out, a close after an error) replaces it or
  adds another.
\<close>

theorem exactly_one_envelope:
  "(prepare repoRoot p = Inl env \<longrightarrow>
      handler repoRoot p es = \<lparr>spawn = None, result = Some env, thrown = None\<rparr>) \<and>
   (prepare repoRoot p = Inr call \<and> \<not> spawn_throws call \<longrightarrow>
      (result (handler repoRoot p es) = None \<longleftrightarrow> (\<forall>e\<in>set es. \<not> resolving e)) \<and>
      ((\<forall>e\<in>set es. \<not> resolving e) \<and> resolving e \<longrightarrow>
         result (handler repoRoot p (es @ e # later)) = settled (on_event (run es spawned) e))) \<and>
   (result (handler repoRoot p es) = Some env \<longrightarrow>
      result (handler repoRoot p (es @ later)) = Some env)"
proof (intro conjI impI)
  assume "prepare repoRoot p = Inl env"
  then show "handler repoRoot p es = \<lparr>spawn = None, result = Some env, thrown = None\<rparr>"
    by (rule handler_rejected)
next
  assume "prepare repoRoot p = Inr call \<and> \<not> spawn_throws call"
  then have "result (handler repoRoot p es) = settled (run es spawned)"
    by (simp add: handler_spawned)
  moreover have "settled (run es spawned) = None \<longleftrightarrow> (\<forall>e\<in>set es. \<not> resolving e)"
    using settled_run_resolved [of es spawned] pending_before(1) [of es] by blast
  ultimately show "result (handler repoRoot p es) = None \<longleftrightarrow> (\<forall>e\<in>set es. \<not> resolving e)"
    by simp
next
  assume spawns: "prepare repoRoot p = Inr call \<and> \<not> spawn_throws call"
    and first: "(\<forall>e\<in>set es. \<not> resolving e) \<and> resolving e"
  then obtain env' where "settled (on_event (run es spawned) e) = Some env'"
    using settled_on_event_resolving [of e "run es spawned"] by blast
  then show "result (handler repoRoot p (es @ e # later)) = settled (on_event (run es spawned) e)"
    using spawns first by (simp add: handler_spawned first_resolving)
next
  assume has: "result (handler repoRoot p es) = Some env"
  show "result (handler repoRoot p (es @ later)) = Some env"
  proof (cases "prepare repoRoot p")
    case (Inl rejected)
    with has show ?thesis
      by (simp add: handler_rejected)
  next
    case (Inr made)
    with has show ?thesis
      by (cases "spawn_throws made")
         (simp_all add: handler_spawned handler_threw run_append settled_run_stable)
  qed
qed

theorem exactly_one_envelope_witness:
  "result (handler (Some (ascii ''/w'')) 
     \<lparr>subreddit = ascii ''s'', app = None, config = None, connect = False,
      dateformat = None, json = False, since = None, verbose = True\<rparr>
     [ProcError (ErrorObject (ascii ''ENOENT''))]) =
     Some \<lparr>content = [TextContent (ascii ''Failed to execute devvit logs: ENOENT'')], isError = True\<rparr> \<and>
   result (handler (Some (ascii ''/w'')) 
     \<lparr>subreddit = ascii ''s'', app = None, config = None, connect = False,
      dateformat = None, json = False, since = None, verbose = True\<rparr>
     ([ProcError (ErrorObject (ascii ''ENOENT''))] @ [ProcClose (Some (- 2)), TimerFired])) =
     Some \<lparr>content = [TextContent (ascii ''Failed to execute devvit logs: ENOENT'')], isError = True\<rparr>"
proof -
  let ?p = "
     \<lparr>subreddit = ascii ''s'', app = None, config = None, connect = False,
      dateformat = None, json = False, since = None, verbose = True\<rparr>"
  let ?env = "\<lparr>content = [TextContent (ascii ''Failed to execute devvit logs: ENOENT'')], isError = True\<rparr>"
  have one: "result (handler (Some (ascii ''/w'')) ?p [ProcError (ErrorObject (ascii ''ENOENT''))]) = Some ?env"
    using handler_spawned [OF example_spawns example_returns, of "[ProcError (ErrorObject (ascii ''ENOENT''))]"]
    by (simp add: run_def on_error_def resolve_def spawned_def ascii_def)
  with exactly_one_envelope [of "Some (ascii ''/w'')" ?p ?env "[ProcError (ErrorObject (ascii ''ENOENT''))]"
      _ _ "[ProcClose (Some (- 2)), TimerFired]"]
  show ?thesis
    by blast
qed

text \<open>
  Claim C9 as written speaks of every invocation. A subreddit that holds a NUL code unit
  passes the schema and makes \<^verbatim>\<open>spawn\<close> throw: the handler's promise is rejected and
  there is no envelope. And a child that neither fails nor closes, here after the
  interrupt, leaves the promise pending: there is no envelope either.
\<close>

theorem exactly_one_envelope_counterexample:
  "logsTool (Some (ascii ''/w'')) [(''subreddit'', JString [0x61, 0, 0x62])] [] =
     Some \<lparr>spawn = Some \<lparr>command = ascii ''devvit'',
                          args = [ascii ''logs'', [0x61, 0, 0x62], ascii ''--verbose''],
                          cwd = Some (ascii ''/w'')\<rparr>,
           result = None, thrown = Some ERR_INVALID_ARG_VALUE\<rparr> \<and>
   logsTool (Some (ascii ''/w'')) [(''subreddit'', JString (ascii ''s''))]
       [StdoutData (ascii ''line''), TimerFired, StdoutData (ascii ''line'')] =
     Some \<lparr>spawn = Some \<lparr>command = ascii ''devvit'',
                          args = [ascii ''logs'', ascii ''s'', ascii ''--verbose''],
                          cwd = Some (ascii ''/w'')\<rparr>,
           result = None, thrown = None\<rparr>"
  by (simp add: logsTool_def inputSchema_def z_string_def z_string_optional_def
        z_boolean_default_def handler_def prepare_def truthy_def build_args_def push_string_def
        push_bool_def spawn_throws_def has_nul_def run_def on_timeout_def spawned_def ascii_def)

end
